theory Spec2Isabelle
  imports Main "HOL-Library.Word"
begin

section \<open>Configuration resolution of the live-reload runner (runner/config.go)\<close>

text \<open>
  The theory embeds \<^verbatim>\<open>runner/config.go\<close>: the configuration schema, the default
  provider, the loader and discovery functions, the merge with the defaults, the
  \<^verbatim>\<open>preprocess\<close> step and the accessors. Go's multiple return values \<^verbatim>\<open>(v, err)\<close> are
  pairs \<open>(v, err)\<close> with \<open>err :: error option\<close> wherever the source hands both to its
  caller, and sums where the value is \<^verbatim>\<open>nil\<close> exactly when the error is not.
\<close>

subsection \<open>Data model\<close>

text \<open>
  A Go \<^verbatim>\<open>string\<close> is a \<open>string\<close>, a \<^verbatim>\<open>[]string\<close> is a \<open>string list\<close> (a nil and an empty
  slice both have length 0, which is all the code and the merge look at), \<^verbatim>\<open>int\<close> (on a
  64-bit host) and \<^verbatim>\<open>time.Duration\<close> (an \<^verbatim>\<open>int64\<close>) are 64-bit words.
\<close>

record cfgLog =
  AddTime :: bool

record cfgColor =
  Main :: string
  Watcher :: string
  Build :: string
  Runner :: string
  App :: string

record cfgMisc =
  CleanOnExit :: bool

record cfgBuild =
  Cmd :: string
  Bin :: string
  FullBin :: string
  Log :: string
  IncludeExt :: "string list"
  ExcludeDir :: "string list"
  IncludeDir :: "string list"
  ExcludeFile :: "string list"
  Delay :: "64 word"
  StopOnError :: bool
  SendInterrupt :: bool
  KillDelay :: "64 word"

record config =
  Root :: string
  TmpDir :: string
  Build :: cfgBuild
  Color :: cfgColor
  Log :: cfgLog
  Misc :: cfgMisc

text \<open>
  Errors are values. \<^verbatim>\<open>fmt.Errorf("error read config / %w", err)\<close> wraps its cause.
\<close>

datatype error =
    OsError string
  | ErrReadConfig error
  | ErrParseConfig error
  | ErrMerge string

definition dftTOML :: string where "dftTOML = ''.air.toml''"
definition dftYAML :: string where "dftYAML = ''.air.yaml''"
definition dftConf :: string where "dftConf = ''.air.conf''"
definition airWd :: string where "airWd = ''air_wd''"

subsection \<open>The host: operating system, libraries and helpers outside this file\<close>

text \<open>
  The process state that the code changes is the working directory (\<^verbatim>\<open>os.Chdir\<close>); it is
  threaded explicitly as a value of type \<open>proc\<close>. Everything the code calls but does not
  define is a field of the record \<open>world\<close>, so every theorem holds for all behaviours of
  the host:
  \<^item> \<open>GOOS\<close>: \<^verbatim>\<open>runtime.GOOS\<close>; \<open>PlatformWindows\<close>: the constant of that name, declared in
    another file of the package;
  \<^item> \<open>Getenv\<close>, \<open>Getwd\<close>, \<open>Chdir\<close>: package \<^verbatim>\<open>os\<close>; \<open>Join\<close>, \<open>Abs\<close>, \<open>Rel\<close>: package
    \<^verbatim>\<open>path/filepath\<close>;
  \<^item> \<open>ReadInConfig\<close>, \<open>Unmarshal\<close>: the two calls on the \<^verbatim>\<open>viper\<close> instance that
    \<^verbatim>\<open>readConfig\<close> sets up for a path (config file, key replacer \<^verbatim>\<open>. -> __\<close>, automatic
    environment);
  \<^item> \<open>expandPath\<close>, \<open>cleanPath\<close>, \<open>adaptToVariousPlatforms\<close>: helpers of the package
    defined in another file. \<open>adaptToVariousPlatforms\<close> receives the pointer to the
    configuration and is modelled as a function from the configuration before the call
    to the configuration after it.
\<close>

type_synonym proc = string

record world =
  GOOS :: string
  PlatformWindows :: string
  Getenv :: "string \<Rightarrow> string"
  Getwd :: "proc \<Rightarrow> error + string"
  Chdir :: "string \<Rightarrow> proc \<Rightarrow> error + proc"
  Join :: "string \<Rightarrow> string \<Rightarrow> string"
  Abs :: "proc \<Rightarrow> string \<Rightarrow> string \<times> error option"
  Rel :: "string \<Rightarrow> string \<Rightarrow> string \<times> error option"
  ReadInConfig :: "proc \<Rightarrow> string \<Rightarrow> error option"
  Unmarshal :: "proc \<Rightarrow> string \<Rightarrow> error + config"
  expandPath :: "proc \<Rightarrow> string \<Rightarrow> string \<times> error option"
  cleanPath :: "string \<Rightarrow> string"
  adaptToVariousPlatforms :: "config \<Rightarrow> config"

subsection \<open>Default provider\<close>

definition defaultConfig :: "world \<Rightarrow> config" where
  "defaultConfig w =
     (let build = \<lparr> Cmd = ''go build -o ./tmp/main .'',
                    Bin = ''./tmp/main'',
                    FullBin = [],
                    Log = ''build-errors.log'',
                    IncludeExt = [''go'', ''tpl'', ''tmpl'', ''html''],
                    ExcludeDir = [''assets'', ''tmp'', ''vendor''],
                    IncludeDir = [],
                    ExcludeFile = [],
                    Delay = 1000,
                    StopOnError = True,
                    SendInterrupt = False,
                    KillDelay = 0 \<rparr>;
          build = (if GOOS w = PlatformWindows w
                   then build\<lparr> Bin := ''tmp'' @ [CHR 0x5C] @ ''main.exe'',
                               Cmd := ''go build -o ./tmp/main.exe .'' \<rparr>
                   else build);
          log = \<lparr> AddTime = False \<rparr>;
          color = \<lparr> Main = ''magenta'', Watcher = ''cyan'', Build = ''yellow'',
                    Runner = ''green'', App = [] \<rparr>;
          misc = \<lparr> CleanOnExit = False \<rparr>
      in \<lparr> Root = ''.'', TmpDir = ''tmp'', Build = build, Color = color,
           Log = log, Misc = misc \<rparr>)"

subsection \<open>Source loader\<close>

text \<open>
  \<^verbatim>\<open>readConfig\<close> returns \<^verbatim>\<open>(nil, err)\<close> or \<^verbatim>\<open>(cfg, nil)\<close>: a sum. Fields the file and the
  environment do not set keep Go's zero values; that is a property of \<open>Unmarshal\<close>.
\<close>

definition readConfig :: "world \<Rightarrow> proc \<Rightarrow> string \<Rightarrow> error + config" where
  "readConfig w p path =
     (case ReadInConfig w p path of
        Some err \<Rightarrow> Inl (ErrReadConfig err)
      | None \<Rightarrow>
          (case Unmarshal w p path of
             Inl err \<Rightarrow> Inl (ErrParseConfig err)
           | Inr cfg \<Rightarrow> Inr cfg))"

text \<open>
  \<^verbatim>\<open>readConfigOrDefault\<close> returns a configuration in both branches, and the error with
  it in the first: a pair.
\<close>

definition readConfigOrDefault :: "world \<Rightarrow> proc \<Rightarrow> string \<Rightarrow> config \<times> error option" where
  "readConfigOrDefault w p path =
     (let dftCfg = defaultConfig w
      in case readConfig w p path of
           Inl err \<Rightarrow> (dftCfg, Some err)
         | Inr cfg \<Rightarrow> (cfg, None))"

subsection \<open>Discovery\<close>

definition readConfByName :: "world \<Rightarrow> proc \<Rightarrow> string \<Rightarrow> error + config" where
  "readConfByName w p name =
     (let wd = Getenv w airWd
      in if wd \<noteq> [] then readConfig w p (Join w wd name)
         else (case Getwd w p of
                 Inl err \<Rightarrow> Inl err
               | Inr wd \<Rightarrow> readConfig w p (Join w wd name)))"

text \<open>
  The \<^verbatim>\<open>for ... range\<close> loop of \<^verbatim>\<open>defaultPathConfig\<close> over the candidate names: the first
  name that reads without error ends the loop with its configuration (\<open>Some\<close>), and
  \<open>None\<close> is falling out of the loop. The first component is what the function prints.
\<close>

fun defaultPathConfig_loop ::
  "world \<Rightarrow> proc \<Rightarrow> string list \<Rightarrow> (string list \<times> config) option" where
  "defaultPathConfig_loop w p [] = None"
| "defaultPathConfig_loop w p (name # names) =
     (case readConfByName w p name of
        Inr cfg \<Rightarrow>
          Some (if name = dftConf
                then [''`.air.conf` will be deprecated soon, recommend using `.air.toml`.'']
                else [],
                cfg)
      | Inl err \<Rightarrow> defaultPathConfig_loop w p names)"

definition defaultPathConfig :: "world \<Rightarrow> proc \<Rightarrow> string list \<times> config \<times> error option" where
  "defaultPathConfig w p =
     (case defaultPathConfig_loop w p [dftYAML, dftTOML, dftConf] of
        Some (out, cfg) \<Rightarrow> (out, cfg, None)
      | None \<Rightarrow> (let dftCfg = defaultConfig w in ([], dftCfg, None)))"

subsection \<open>Merge with the defaults\<close>

text \<open>
  \<^verbatim>\<open>mergo.Merge(dst, src)\<close> without options walks two structs of the same type field by
  field, descends into nested structs, and at every other field assigns the source's
  value when the destination's is empty and the source's is not. Empty means: length 0
  for a string or slice, 0 for an integer, \<^verbatim>\<open>false\<close> for a bool. With a pointer to a
  \<^verbatim>\<open>config\<close> and a \<^verbatim>\<open>config\<close> as arguments none of its error returns is reachable; the
  result keeps the shape \<open>error + config\<close> of the call.
\<close>

definition mergeField :: "('a \<Rightarrow> bool) \<Rightarrow> 'a \<Rightarrow> 'a \<Rightarrow> 'a" where
  "mergeField isEmpty dst src = (if isEmpty dst \<and> \<not> isEmpty src then src else dst)"

definition emptyLen :: "'a list \<Rightarrow> bool" where
  "emptyLen v = (length v = 0)"

definition emptyInt :: "64 word \<Rightarrow> bool" where
  "emptyInt v = (v = 0)"

definition emptyBool :: "bool \<Rightarrow> bool" where
  "emptyBool v = (\<not> v)"

definition merge_cfgBuild :: "cfgBuild \<Rightarrow> cfgBuild \<Rightarrow> cfgBuild" where
  "merge_cfgBuild dst src =
     \<lparr> Cmd = mergeField emptyLen (Cmd dst) (Cmd src),
       Bin = mergeField emptyLen (Bin dst) (Bin src),
       FullBin = mergeField emptyLen (FullBin dst) (FullBin src),
       Log = mergeField emptyLen (cfgBuild.Log dst) (cfgBuild.Log src),
       IncludeExt = mergeField emptyLen (IncludeExt dst) (IncludeExt src),
       ExcludeDir = mergeField emptyLen (ExcludeDir dst) (ExcludeDir src),
       IncludeDir = mergeField emptyLen (IncludeDir dst) (IncludeDir src),
       ExcludeFile = mergeField emptyLen (ExcludeFile dst) (ExcludeFile src),
       Delay = mergeField emptyInt (Delay dst) (Delay src),
       StopOnError = mergeField emptyBool (StopOnError dst) (StopOnError src),
       SendInterrupt = mergeField emptyBool (SendInterrupt dst) (SendInterrupt src),
       KillDelay = mergeField emptyInt (KillDelay dst) (KillDelay src) \<rparr>"

definition merge_cfgColor :: "cfgColor \<Rightarrow> cfgColor \<Rightarrow> cfgColor" where
  "merge_cfgColor dst src =
     \<lparr> Main = mergeField emptyLen (Main dst) (Main src),
       Watcher = mergeField emptyLen (Watcher dst) (Watcher src),
       Build = mergeField emptyLen (cfgColor.Build dst) (cfgColor.Build src),
       Runner = mergeField emptyLen (Runner dst) (Runner src),
       App = mergeField emptyLen (App dst) (App src) \<rparr>"

definition merge_cfgLog :: "cfgLog \<Rightarrow> cfgLog \<Rightarrow> cfgLog" where
  "merge_cfgLog dst src = \<lparr> AddTime = mergeField emptyBool (AddTime dst) (AddTime src) \<rparr>"

definition merge_cfgMisc :: "cfgMisc \<Rightarrow> cfgMisc \<Rightarrow> cfgMisc" where
  "merge_cfgMisc dst src =
     \<lparr> CleanOnExit = mergeField emptyBool (CleanOnExit dst) (CleanOnExit src) \<rparr>"

definition mergo_Merge :: "config \<Rightarrow> config \<Rightarrow> error + config" where
  "mergo_Merge dst src =
     Inr \<lparr> Root = mergeField emptyLen (Root dst) (Root src),
           TmpDir = mergeField emptyLen (TmpDir dst) (TmpDir src),
           Build = merge_cfgBuild (config.Build dst) (config.Build src),
           Color = merge_cfgColor (Color dst) (Color src),
           Log = merge_cfgLog (config.Log dst) (config.Log src),
           Misc = merge_cfgMisc (Misc dst) (Misc src) \<rparr>"

subsection \<open>Preprocess\<close>

text \<open>
  \<^verbatim>\<open>preprocess\<close> mutates the configuration behind its receiver and returns an error; the
  caller keeps the pointer, so the model returns the process state, the configuration
  as it stands at the return, and the error. \<^verbatim>\<open>c.Root, err = expandPath(c.Root)\<close> and
  \<^verbatim>\<open>c.Build.Bin, err = filepath.Abs(c.Build.Bin)\<close> assign the returned string whether or
  not the error is nil. The loop over \<^verbatim>\<open>ed\<close> cleans the elements of the exclude list in
  place, before the platform adaptation sees the configuration; the list is assigned
  back after it.
\<close>

definition preprocess :: "world \<Rightarrow> proc \<Rightarrow> config \<Rightarrow> proc \<times> config \<times> error option" where
  "preprocess w p c =
     (let cwd = Getenv w airWd
      in case (if cwd \<noteq> []
               then (case Chdir w cwd p of
                       Inl err \<Rightarrow> Inl err
                     | Inr p' \<Rightarrow> Inr (p', c\<lparr> Root := cwd \<rparr>))
               else Inr (p, c)) of
           Inl err \<Rightarrow> (p, c, Some err)
         | Inr (p, c) \<Rightarrow>
             (case expandPath w p (Root c) of
                (root, err) \<Rightarrow>
                  (let c = c\<lparr> Root := root \<rparr>;
                       c = (if TmpDir c = [] then c\<lparr> TmpDir := ''tmp'' \<rparr> else c)
                   in case err of
                        Some e \<Rightarrow> (p, c, Some e)
                      | None \<Rightarrow>
                          (let ed = map (cleanPath w) (ExcludeDir (config.Build c));
                               c = c\<lparr> config.Build := (config.Build c)\<lparr> ExcludeDir := ed \<rparr> \<rparr>;
                               c = adaptToVariousPlatforms w c;
                               c = c\<lparr> config.Build := (config.Build c)\<lparr> ExcludeDir := ed \<rparr> \<rparr>
                           in if length (FullBin (config.Build c)) > 0
                              then (p, c\<lparr> config.Build :=
                                           (config.Build c)\<lparr> Bin := FullBin (config.Build c) \<rparr> \<rparr>,
                                    None)
                              else (case Abs w p (Bin (config.Build c)) of
                                      (bin, err) \<Rightarrow>
                                        (p, c\<lparr> config.Build := (config.Build c)\<lparr> Bin := bin \<rparr> \<rparr>,
                                         err))))))"

subsection \<open>Resolution\<close>

text \<open>
  \<^verbatim>\<open>initConfig\<close> returns a pointer and an error: \<open>None\<close> in the third component is the
  \<^verbatim>\<open>nil\<close> pointer. The result also carries the process state and the lines printed.
\<close>

definition initConfig ::
  "world \<Rightarrow> proc \<Rightarrow> string \<Rightarrow> proc \<times> string list \<times> config option \<times> error option" where
  "initConfig w p path =
     (case (if path = []
            then defaultPathConfig w p
            else (case readConfigOrDefault w p path of (cfg, err) \<Rightarrow> ([], cfg, err))) of
        (out, cfg, Some err) \<Rightarrow> (p, out, None, Some err)
      | (out, cfg, None) \<Rightarrow>
          (case mergo_Merge cfg (defaultConfig w) of
             Inl err \<Rightarrow> (p, out, None, Some err)
           | Inr cfg \<Rightarrow>
               (case preprocess w p cfg of
                  (p', cfg', err) \<Rightarrow> (p', out, Some cfg', err))))"

subsection \<open>Accessors\<close>

definition colorInfo :: "config \<Rightarrow> (string \<rightharpoonup> string)" where
  "colorInfo c =
     [''main'' \<mapsto> cfgColor.Main (Color c),
      ''build'' \<mapsto> cfgColor.Build (Color c),
      ''runner'' \<mapsto> cfgColor.Runner (Color c),
      ''watcher'' \<mapsto> cfgColor.Watcher (Color c)]"

definition tmpPath :: "world \<Rightarrow> config \<Rightarrow> string" where
  "tmpPath w c = Join w (Root c) (TmpDir c)"

definition buildLogPath :: "world \<Rightarrow> config \<Rightarrow> string" where
  "buildLogPath w c = Join w (tmpPath w c) (cfgBuild.Log (config.Build c))"

text \<open>\<^verbatim>\<open>time.Millisecond\<close> is 1000000 nanoseconds; the product wraps in 64 bits.\<close>

definition buildDelay :: "config \<Rightarrow> 64 word" where
  "buildDelay c = Delay (config.Build c) * 1000000"

definition binPath :: "world \<Rightarrow> config \<Rightarrow> string" where
  "binPath w c = Join w (Root c) (Bin (config.Build c))"

definition rel :: "world \<Rightarrow> config \<Rightarrow> string \<Rightarrow> string" where
  "rel w c path =
     (case Rel w (Root c) path of
        (s, Some err) \<Rightarrow> []
      | (s, None) \<Rightarrow> s)"

subsection \<open>A concrete host\<close>

text \<open>
  \<open>zeroConfig\<close> is the value of \<^verbatim>\<open>new(config)\<close>: every field at Go's zero value. The
  host \<open>example_host\<close> is a Unix-like machine with four configuration files, no
  \<^verbatim>\<open>air_wd\<close> in the environment, and a platform adaptation that changes nothing; the
  process state is the working directory itself. It instantiates the general theorems
  below.
\<close>

definition zeroConfig :: config where
  "zeroConfig =
     \<lparr> Root = [], TmpDir = [],
       Build = \<lparr> Cmd = [], Bin = [], FullBin = [], Log = [], IncludeExt = [],
                 ExcludeDir = [], IncludeDir = [], ExcludeFile = [], Delay = 0,
                 StopOnError = False, SendInterrupt = False, KillDelay = 0 \<rparr>,
       Color = \<lparr> Main = [], Watcher = [], Build = [], Runner = [], App = [] \<rparr>,
       Log = \<lparr> AddTime = False \<rparr>,
       Misc = \<lparr> CleanOnExit = False \<rparr> \<rparr>"

definition file_only_cmd :: config where
  "file_only_cmd = zeroConfig\<lparr> config.Build := (config.Build zeroConfig)\<lparr> Cmd := ''make'' \<rparr> \<rparr>"

definition file_custom_bin :: config where
  "file_custom_bin =
     zeroConfig\<lparr> config.Build :=
                   (config.Build zeroConfig)\<lparr> Bin := ''app'', FullBin := ''/custom/path'' \<rparr> \<rparr>"

definition file_yaml :: config where
  "file_yaml = zeroConfig\<lparr> config.Build := (config.Build zeroConfig)\<lparr> Cmd := ''make yaml'' \<rparr> \<rparr>"

definition file_toml :: config where
  "file_toml = zeroConfig\<lparr> config.Build := (config.Build zeroConfig)\<lparr> Cmd := ''make toml'' \<rparr> \<rparr>"

definition example_files :: "string \<rightharpoonup> config" where
  "example_files =
     [''/proj/air.toml'' \<mapsto> file_only_cmd,
      ''/proj/custom.toml'' \<mapsto> file_custom_bin,
      ''/both/.air.yaml'' \<mapsto> file_yaml,
      ''/both/.air.toml'' \<mapsto> file_toml]"

definition example_host :: world where
  "example_host =
     \<lparr> GOOS = ''linux'',
       PlatformWindows = ''windows'',
       Getenv = (\<lambda>key. []),
       Getwd = (\<lambda>p. Inr p),
       Chdir = (\<lambda>dir p. Inr dir),
       Join = (\<lambda>a b. a @ ''/'' @ b),
       Abs = (\<lambda>p s. (if take 1 s = ''/'' then s else p @ ''/'' @ s, None)),
       Rel = (\<lambda>base targ.
                if take (length base + 1) targ = base @ ''/''
                then (drop (length base + 1) targ, None)
                else ([], Some (OsError ''Rel: cannot make relative''))),
       ReadInConfig = (\<lambda>p path.
                case example_files path of
                  None \<Rightarrow> Some (OsError ''no such file'')
                | Some cfg \<Rightarrow> None),
       Unmarshal = (\<lambda>p path.
                case example_files path of
                  None \<Rightarrow> Inl (OsError ''nothing read'')
                | Some cfg \<Rightarrow> Inr cfg),
       expandPath = (\<lambda>p s. (if s = ''.'' then p else s, None)),
       cleanPath = (\<lambda>s. s),
       adaptToVariousPlatforms = (\<lambda>c. c) \<rparr>"

text \<open>The same host with \<^verbatim>\<open>air_wd\<close> set in the environment.\<close>

definition example_host_wd :: "string \<Rightarrow> world" where
  "example_host_wd dir = example_host\<lparr> Getenv := (\<lambda>key. if key = airWd then dir else []) \<rparr>"

text \<open>An \<^verbatim>\<open>Abs\<close> that always fails, to observe whether it is called.\<close>

definition failingAbs :: "proc \<Rightarrow> string \<Rightarrow> string \<times> error option" where
  "failingAbs p s = ([], Some (OsError ''abs failed''))"

text \<open>Configurations used as inputs, and the result expected for one of them.\<close>

definition cfg_proj :: config where
  "cfg_proj = (defaultConfig example_host)\<lparr> Root := ''/proj'' \<rparr>"

definition cfg_full_bin :: config where
  "cfg_full_bin =
     (defaultConfig example_host)\<lparr> config.Build :=
        (config.Build (defaultConfig example_host))\<lparr> FullBin := ''/custom/path'' \<rparr> \<rparr>"

definition finalized_custom_bin :: config where
  "finalized_custom_bin =
     \<lparr> Root = ''/proj'', TmpDir = ''tmp'',
       Build = \<lparr> Cmd = ''go build -o ./tmp/main .'', Bin = ''/custom/path'',
                 FullBin = ''/custom/path'', Log = ''build-errors.log'',
                 IncludeExt = [''go'', ''tpl'', ''tmpl'', ''html''],
                 ExcludeDir = [''assets'', ''tmp'', ''vendor''], IncludeDir = [],
                 ExcludeFile = [], Delay = 1000, StopOnError = True,
                 SendInterrupt = False, KillDelay = 0 \<rparr>,
       Color = \<lparr> Main = ''magenta'', Watcher = ''cyan'', Build = ''yellow'',
                 Runner = ''green'', App = [] \<rparr>,
       Log = \<lparr> AddTime = False \<rparr>,
       Misc = \<lparr> CleanOnExit = False \<rparr> \<rparr>"

subsection \<open>Notions used to state the properties\<close>

text \<open>
  \<open>loads w p path l\<close>: the first stage of \<^verbatim>\<open>initConfig\<close> on \<open>path\<close> obtains the
  configuration \<open>l\<close> and goes on to merge it: by discovery when the path is empty, from
  the file at \<open>path\<close> otherwise.
\<close>

definition loads :: "world \<Rightarrow> proc \<Rightarrow> string \<Rightarrow> config \<Rightarrow> bool" where
  "loads w p path l \<longleftrightarrow>
     (if path = [] then fst (snd (defaultPathConfig w p)) = l
      else readConfig w p path = Inr l)"

text \<open>
  \<open>precedes zero loaded dflt final\<close>: the final value of a field is the loaded one
  unless that is the zero value of the field's type, and the default otherwise.
\<close>

definition precedes :: "'a \<Rightarrow> 'a \<Rightarrow> 'a \<Rightarrow> 'a \<Rightarrow> bool" where
  "precedes zero loaded dflt final \<longleftrightarrow> final = (if loaded = zero then dflt else loaded)"

section \<open>Properties\<close>

subsection \<open>Merge\<close>

lemma mergeField_emptyLen: "mergeField emptyLen a b = (if a = [] then b else a)"
  by (simp add: mergeField_def emptyLen_def)

lemma mergeField_emptyInt: "mergeField emptyInt a b = (if a = 0 then b else a)"
  by (simp add: mergeField_def emptyInt_def)

lemma mergeField_emptyBool: "mergeField emptyBool a b = (if a = False then b else a)"
  by (auto simp: mergeField_def emptyBool_def)

lemmas mergeField_simps = mergeField_emptyLen mergeField_emptyInt mergeField_emptyBool

lemmas merge_defs = mergo_Merge_def merge_cfgBuild_def merge_cfgColor_def merge_cfgLog_def
  merge_cfgMisc_def

lemma mergo_Merge_total: "\<exists>m. mergo_Merge l d = Inr m"
  by (simp add: mergo_Merge_def)

lemma mergo_Merge_same: "mergo_Merge d d = Inr d"
  by (simp add: merge_defs mergeField_simps)

lemma mergo_Merge_top:
  assumes "mergo_Merge l d = Inr m"
  shows "precedes [] (Root l) (Root d) (Root m)"
    and "precedes [] (TmpDir l) (TmpDir d) (TmpDir m)"
  using assms by (auto simp: merge_defs mergeField_simps precedes_def)

lemma mergo_Merge_build:
  assumes "mergo_Merge l d = Inr m"
  shows "precedes [] (Cmd (config.Build l)) (Cmd (config.Build d)) (Cmd (config.Build m))"
    and "precedes [] (Bin (config.Build l)) (Bin (config.Build d)) (Bin (config.Build m))"
    and "precedes [] (FullBin (config.Build l)) (FullBin (config.Build d))
           (FullBin (config.Build m))"
    and "precedes [] (cfgBuild.Log (config.Build l)) (cfgBuild.Log (config.Build d))
           (cfgBuild.Log (config.Build m))"
    and "precedes [] (IncludeExt (config.Build l)) (IncludeExt (config.Build d))
           (IncludeExt (config.Build m))"
    and "precedes [] (ExcludeDir (config.Build l)) (ExcludeDir (config.Build d))
           (ExcludeDir (config.Build m))"
    and "precedes [] (IncludeDir (config.Build l)) (IncludeDir (config.Build d))
           (IncludeDir (config.Build m))"
    and "precedes [] (ExcludeFile (config.Build l)) (ExcludeFile (config.Build d))
           (ExcludeFile (config.Build m))"
    and "precedes 0 (Delay (config.Build l)) (Delay (config.Build d)) (Delay (config.Build m))"
    and "precedes False (StopOnError (config.Build l)) (StopOnError (config.Build d))
           (StopOnError (config.Build m))"
    and "precedes False (SendInterrupt (config.Build l)) (SendInterrupt (config.Build d))
           (SendInterrupt (config.Build m))"
    and "precedes 0 (KillDelay (config.Build l)) (KillDelay (config.Build d))
           (KillDelay (config.Build m))"
  using assms by (auto simp: merge_defs mergeField_simps precedes_def)

lemma mergo_Merge_rest:
  assumes "mergo_Merge l d = Inr m"
  shows "precedes [] (Main (Color l)) (Main (Color d)) (Main (Color m))"
    and "precedes [] (Watcher (Color l)) (Watcher (Color d)) (Watcher (Color m))"
    and "precedes [] (cfgColor.Build (Color l)) (cfgColor.Build (Color d))
           (cfgColor.Build (Color m))"
    and "precedes [] (Runner (Color l)) (Runner (Color d)) (Runner (Color m))"
    and "precedes [] (App (Color l)) (App (Color d)) (App (Color m))"
    and "precedes False (AddTime (config.Log l)) (AddTime (config.Log d))
           (AddTime (config.Log m))"
    and "precedes False (CleanOnExit (Misc l)) (CleanOnExit (Misc d)) (CleanOnExit (Misc m))"
  using assms by (auto simp: merge_defs mergeField_simps precedes_def)

lemma defaultConfig_fields:
  "Root (defaultConfig w) = ''.''"
  "TmpDir (defaultConfig w) = ''tmp''"
  "Delay (config.Build (defaultConfig w)) = 1000"
  "StopOnError (config.Build (defaultConfig w)) = True"
  "FullBin (config.Build (defaultConfig w)) = []"
  by (simp_all add: defaultConfig_def Let_def)

subsection \<open>Discovery\<close>

lemma defaultPathConfig_cases:
  "defaultPathConfig w p =
     (case readConfByName w p ''.air.yaml'' of
        Inr c \<Rightarrow> ([], c, None)
      | Inl e1 \<Rightarrow>
          (case readConfByName w p ''.air.toml'' of
             Inr c \<Rightarrow> ([], c, None)
           | Inl e2 \<Rightarrow>
               (case readConfByName w p ''.air.conf'' of
                  Inr c \<Rightarrow>
                    ([''`.air.conf` will be deprecated soon, recommend using `.air.toml`.''],
                     c, None)
                | Inl e3 \<Rightarrow> ([], defaultConfig w, None))))"
  by (simp add: defaultPathConfig_def dftYAML_def dftTOML_def dftConf_def split: sum.splits)

lemma defaultPathConfig_no_error: "snd (snd (defaultPathConfig w p)) = None"
  by (simp add: defaultPathConfig_cases split: sum.splits)

lemma initConfig_loads:
  assumes "loads w p path l" and "mergo_Merge l (defaultConfig w) = Inr m"
  shows "\<exists>out. initConfig w p path =
           (case preprocess w p m of (p', c', err) \<Rightarrow> (p', out, Some c', err))"
proof (cases "path = []")
  case True
  obtain out cfg e where d: "defaultPathConfig w p = (out, cfg, e)"
    by (cases "defaultPathConfig w p") auto
  with defaultPathConfig_no_error [of w p] have "e = None" by simp
  moreover from d True assms(1) have "cfg = l" by (simp add: loads_def)
  ultimately show ?thesis using d True assms(2) by (auto simp: initConfig_def)
next
  case False
  with assms show ?thesis
    by (auto simp: initConfig_def loads_def readConfigOrDefault_def Let_def)
qed

subsection \<open>The paths through preprocess\<close>

text \<open>
  Every run of \<open>preprocess\<close> takes one of four paths: the change of directory fails;
  the expansion of the root fails; \<^verbatim>\<open>full_bin\<close> is set after the platform adaptation;
  or the binary path is made absolute. In the last three, \<open>c1\<close> is the configuration
  after the working-directory block and \<open>a\<close> the one the platform adaptation returns.
\<close>

lemma preprocess_elim [consumes 1, case_names ChdirFail ExpandFail FullBinSet AbsBin]:
  assumes run: "preprocess w p c = (p', c', err)"
  obtains
    (ChdirFail) e where
      "Getenv w airWd \<noteq> []" "Chdir w (Getenv w airWd) p = Inl e"
      "p' = p" "c' = c" "err = Some e"
  | (ExpandFail) c1 root e where
      "c1 = (if Getenv w airWd = [] then c else c\<lparr> Root := Getenv w airWd \<rparr>)"
      "if Getenv w airWd = [] then p' = p else Chdir w (Getenv w airWd) p = Inr p'"
      "expandPath w p' (Root c1) = (root, Some e)"
      "c' = c1\<lparr> Root := root, TmpDir := (if TmpDir c = [] then ''tmp'' else TmpDir c) \<rparr>"
      "err = Some e"
  | (FullBinSet) c1 root ed a where
      "c1 = (if Getenv w airWd = [] then c else c\<lparr> Root := Getenv w airWd \<rparr>)"
      "if Getenv w airWd = [] then p' = p else Chdir w (Getenv w airWd) p = Inr p'"
      "expandPath w p' (Root c1) = (root, None)"
      "ed = map (cleanPath w) (ExcludeDir (config.Build c))"
      "a = adaptToVariousPlatforms w
             (c1\<lparr> Root := root, TmpDir := (if TmpDir c = [] then ''tmp'' else TmpDir c),
                  config.Build := (config.Build c)\<lparr> ExcludeDir := ed \<rparr> \<rparr>)"
      "FullBin (config.Build a) \<noteq> []"
      "c' = a\<lparr> config.Build :=
                 (config.Build a)\<lparr> ExcludeDir := ed, Bin := FullBin (config.Build a) \<rparr> \<rparr>"
      "err = None"
  | (AbsBin) c1 root ed a bin where
      "c1 = (if Getenv w airWd = [] then c else c\<lparr> Root := Getenv w airWd \<rparr>)"
      "if Getenv w airWd = [] then p' = p else Chdir w (Getenv w airWd) p = Inr p'"
      "expandPath w p' (Root c1) = (root, None)"
      "ed = map (cleanPath w) (ExcludeDir (config.Build c))"
      "a = adaptToVariousPlatforms w
             (c1\<lparr> Root := root, TmpDir := (if TmpDir c = [] then ''tmp'' else TmpDir c),
                  config.Build := (config.Build c)\<lparr> ExcludeDir := ed \<rparr> \<rparr>)"
      "FullBin (config.Build a) = []"
      "Abs w p' (Bin (config.Build a)) = (bin, err)"
      "c' = a\<lparr> config.Build := (config.Build a)\<lparr> ExcludeDir := ed, Bin := bin \<rparr> \<rparr>"
proof -
  define c1 where "c1 = (if Getenv w airWd = [] then c else c\<lparr> Root := Getenv w airWd \<rparr>)"
  define ed where "ed = map (cleanPath w) (ExcludeDir (config.Build c))"
  show thesis
  proof (cases "Getenv w airWd \<noteq> [] \<and> (\<exists>e. Chdir w (Getenv w airWd) p = Inl e)")
    case True
    then obtain e where e: "Chdir w (Getenv w airWd) p = Inl e" and wd: "Getenv w airWd \<noteq> []"
      by blast
    from run e wd have "p' = p \<and> c' = c \<and> err = Some e"
      by (auto simp: preprocess_def Let_def)
    with e wd show thesis by (intro ChdirFail [of e]) simp_all
  next
    case False
    then have "\<exists>p1. if Getenv w airWd = [] then p1 = p else Chdir w (Getenv w airWd) p = Inr p1"
      by (cases "Chdir w (Getenv w airWd) p") auto
    then obtain p1 where
      p1: "if Getenv w airWd = [] then p1 = p else Chdir w (Getenv w airWd) p = Inr p1" ..
    obtain root xerr where x: "expandPath w p1 (Root c1) = (root, xerr)"
      by (cases "expandPath w p1 (Root c1)")
    define a where "a = adaptToVariousPlatforms w
             (c1\<lparr> Root := root, TmpDir := (if TmpDir c = [] then ''tmp'' else TmpDir c),
                  config.Build := (config.Build c)\<lparr> ExcludeDir := ed \<rparr> \<rparr>)"
    show thesis
    proof (cases xerr)
      case (Some e)
      from run p1 x Some have "p' = p1 \<and> err = Some e \<and>
          c' = c1\<lparr> Root := root, TmpDir := (if TmpDir c = [] then ''tmp'' else TmpDir c) \<rparr>"
        by (auto simp: preprocess_def Let_def c1_def split: if_splits)
      with p1 x Some show thesis
        by (intro ExpandFail [of c1 root e]) (simp_all add: c1_def)
    next
      case None
      show thesis
      proof (cases "FullBin (config.Build a) = []")
        case False
        from run p1 x None False have "p' = p1 \<and> err = None \<and>
           c' = a\<lparr> config.Build :=
                 (config.Build a)\<lparr> ExcludeDir := ed, Bin := FullBin (config.Build a) \<rparr> \<rparr>"
          by (auto simp: preprocess_def Let_def c1_def a_def ed_def split: if_splits)
        with p1 x None False show thesis
          by (intro FullBinSet [of c1 root ed a]) (simp_all add: c1_def a_def ed_def)
      next
        case True
        obtain bin aerr where ab: "Abs w p1 (Bin (config.Build a)) = (bin, aerr)"
          by (cases "Abs w p1 (Bin (config.Build a))")
        from run p1 x None True ab have "p' = p1 \<and> err = aerr \<and>
           c' = a\<lparr> config.Build := (config.Build a)\<lparr> ExcludeDir := ed, Bin := bin \<rparr> \<rparr>"
          by (auto simp: preprocess_def Let_def c1_def a_def ed_def split: if_splits)
        with p1 x None True ab show thesis
          by (intro AbsBin [of c1 root ed a bin]) (simp_all add: c1_def a_def ed_def)
      qed
    qed
  qed
qed

subsection \<open>The concrete host evaluated\<close>

lemma example_files_simps:
  "example_files ''/proj/air.toml'' = Some file_only_cmd"
  "example_files ''/proj/custom.toml'' = Some file_custom_bin"
  "example_files ''/both/.air.yaml'' = Some file_yaml"
  "example_files ''/both/.air.toml'' = Some file_toml"
  "example_files ''/both/.air.conf'' = None"
  "example_files ''/proj/missing.toml'' = None"
  "example_files ''/none/.air.yaml'' = None"
  "example_files ''/none/.air.toml'' = None"
  "example_files ''/none/.air.conf'' = None"
  by (simp_all add: example_files_def)

lemma example_readConfig:
  "readConfig example_host p ''/proj/air.toml'' = Inr file_only_cmd"
  "readConfig example_host p ''/proj/custom.toml'' = Inr file_custom_bin"
  "readConfig example_host p ''/proj/missing.toml'' = Inl (ErrReadConfig (OsError ''no such file''))"
  by (simp_all add: readConfig_def example_host_def example_files_simps)

lemma example_readConfByName:
  "readConfByName example_host ''/both'' ''.air.yaml'' = Inr file_yaml"
  "readConfByName example_host ''/both'' ''.air.toml'' = Inr file_toml"
  "readConfByName example_host ''/none'' ''.air.yaml'' = Inl (ErrReadConfig (OsError ''no such file''))"
  "readConfByName example_host ''/none'' ''.air.toml'' = Inl (ErrReadConfig (OsError ''no such file''))"
  "readConfByName example_host ''/none'' ''.air.conf'' = Inl (ErrReadConfig (OsError ''no such file''))"
  by (simp_all add: readConfByName_def readConfig_def example_host_def example_files_simps
      airWd_def Let_def)

lemma example_loads:
  "loads example_host p ''/proj/air.toml'' file_only_cmd"
  "loads example_host p ''/proj/custom.toml'' file_custom_bin"
  by (simp_all add: loads_def example_readConfig)

lemma example_adapt: "adaptToVariousPlatforms example_host c = c"
  by (simp add: example_host_def)

lemma surj_triple: "x = (fst x, fst (snd x), snd (snd x))"
  by simp

lemma surj_quad: "x = (fst x, fst (snd x), fst (snd (snd x)), snd (snd (snd x)))"
  by simp

subsection \<open>Resolution as merge followed by preprocess\<close>

lemma initConfig_merged:
  assumes "loads w p path l" and "initConfig w p path = (p', out, r, err)"
  obtains m c' where "mergo_Merge l (defaultConfig w) = Inr m" "r = Some c'"
    "preprocess w p m = (p', c', err)"
proof -
  obtain m where m: "mergo_Merge l (defaultConfig w) = Inr m"
    using mergo_Merge_total by blast
  obtain q c' e where pp: "preprocess w p m = (q, c', e)"
    by (cases "preprocess w p m") auto
  from initConfig_loads [OF assms(1) m] pp assms(2)
  have "r = Some c' \<and> q = p' \<and> e = err" by auto
  with m pp show thesis by (intro that [of m c']) simp_all
qed

lemma preprocess_Abs_unused:
  assumes "FullBin (config.Build c) \<noteq> []"
    and "\<forall>c. FullBin (config.Build (adaptToVariousPlatforms w c)) = FullBin (config.Build c)"
  shows "preprocess (w\<lparr> Abs := f \<rparr>) p c = preprocess w p c"
  using assms
  by (simp add: preprocess_def Let_def split: sum.splits prod.splits option.splits)

section \<open>The claims\<close>

subsection \<open>C1: merge precedence\<close>

text \<open>
  C1, as the code has it. For every configuration \<open>l\<close> that \<open>initConfig\<close> loads and
  every field F, the configuration \<open>m\<close> that the merge hands to \<open>preprocess\<close> has F
  equal to the loaded value when that is not the zero value, and equal to the default
  provider's value when it is. On a host whose platform adaptation changes nothing,
  the finalized configuration \<open>c'\<close> agrees with \<open>m\<close> in every field except
  \<^verbatim>\<open>root\<close>, \<^verbatim>\<open>build.exclude_dir\<close> and \<^verbatim>\<open>build.bin\<close>, which \<open>preprocess\<close> rewrites.
  In particular a load result that holds only \<^verbatim>\<open>build.cmd = "make"\<close> finalizes with
  \<^verbatim>\<open>build.cmd == "make"\<close> and \<^verbatim>\<open>build.delay == 1000\<close>.
\<close>

theorem merge_precedence:
  assumes "loads w p path l"
    and "\<forall>c. adaptToVariousPlatforms w c = c"
    and "initConfig w p path = (p', out, r, err)"
  shows "\<exists>m c'. mergo_Merge l (defaultConfig w) = Inr m \<and> r = Some c' \<and>
     precedes [] (Root l) (Root (defaultConfig w)) (Root m) \<and>
     precedes [] (TmpDir l) (TmpDir (defaultConfig w)) (TmpDir m) \<and>
     precedes [] (Cmd (config.Build l)) (Cmd (config.Build (defaultConfig w)))
       (Cmd (config.Build m)) \<and>
     precedes [] (Bin (config.Build l)) (Bin (config.Build (defaultConfig w)))
       (Bin (config.Build m)) \<and>
     precedes [] (FullBin (config.Build l)) (FullBin (config.Build (defaultConfig w)))
       (FullBin (config.Build m)) \<and>
     precedes [] (cfgBuild.Log (config.Build l)) (cfgBuild.Log (config.Build (defaultConfig w)))
       (cfgBuild.Log (config.Build m)) \<and>
     precedes [] (IncludeExt (config.Build l)) (IncludeExt (config.Build (defaultConfig w)))
       (IncludeExt (config.Build m)) \<and>
     precedes [] (ExcludeDir (config.Build l)) (ExcludeDir (config.Build (defaultConfig w)))
       (ExcludeDir (config.Build m)) \<and>
     precedes [] (IncludeDir (config.Build l)) (IncludeDir (config.Build (defaultConfig w)))
       (IncludeDir (config.Build m)) \<and>
     precedes [] (ExcludeFile (config.Build l)) (ExcludeFile (config.Build (defaultConfig w)))
       (ExcludeFile (config.Build m)) \<and>
     precedes 0 (Delay (config.Build l)) (Delay (config.Build (defaultConfig w)))
       (Delay (config.Build m)) \<and>
     precedes False (StopOnError (config.Build l)) (StopOnError (config.Build (defaultConfig w)))
       (StopOnError (config.Build m)) \<and>
     precedes False (SendInterrupt (config.Build l))
       (SendInterrupt (config.Build (defaultConfig w))) (SendInterrupt (config.Build m)) \<and>
     precedes 0 (KillDelay (config.Build l)) (KillDelay (config.Build (defaultConfig w)))
       (KillDelay (config.Build m)) \<and>
     precedes [] (Main (Color l)) (Main (Color (defaultConfig w))) (Main (Color m)) \<and>
     precedes [] (Watcher (Color l)) (Watcher (Color (defaultConfig w))) (Watcher (Color m)) \<and>
     precedes [] (cfgColor.Build (Color l)) (cfgColor.Build (Color (defaultConfig w)))
       (cfgColor.Build (Color m)) \<and>
     precedes [] (Runner (Color l)) (Runner (Color (defaultConfig w))) (Runner (Color m)) \<and>
     precedes [] (App (Color l)) (App (Color (defaultConfig w))) (App (Color m)) \<and>
     precedes False (AddTime (config.Log l)) (AddTime (config.Log (defaultConfig w)))
       (AddTime (config.Log m)) \<and>
     precedes False (CleanOnExit (Misc l)) (CleanOnExit (Misc (defaultConfig w)))
       (CleanOnExit (Misc m)) \<and>
     c' = m\<lparr> Root := Root c',
             config.Build := (config.Build m)\<lparr> ExcludeDir := ExcludeDir (config.Build c'),
                                               Bin := Bin (config.Build c') \<rparr> \<rparr> \<and>
     (l = file_only_cmd \<longrightarrow>
        Cmd (config.Build c') = ''make'' \<and> Delay (config.Build c') = 1000)"
proof -
  from assms(1,3) obtain m c' where m: "mergo_Merge l (defaultConfig w) = Inr m"
    and r: "r = Some c'" and pp: "preprocess w p m = (p', c', err)"
    by (rule initConfig_merged)
  note top = mergo_Merge_top [OF m] and build = mergo_Merge_build [OF m]
    and rest = mergo_Merge_rest [OF m]
  from top(2) have ne: "TmpDir m \<noteq> []"
    by (simp add: precedes_def defaultConfig_fields)
  from pp have frame:
    "c' = m\<lparr> Root := Root c',
             config.Build := (config.Build m)\<lparr> ExcludeDir := ExcludeDir (config.Build c'),
                                               Bin := Bin (config.Build c') \<rparr> \<rparr>"
  proof (cases rule: preprocess_elim)
    case (ChdirFail e)
    then show ?thesis by simp
  next
    case (ExpandFail c1 root e)
    with ne show ?thesis by simp
  next
    case (FullBinSet c1 root ed a)
    with ne assms(2) show ?thesis by simp
  next
    case (AbsBin c1 root ed a bin)
    with ne assms(2) show ?thesis by simp
  qed
  from arg_cong [OF frame, of "\<lambda>c. Cmd (config.Build c)"]
  have cmd: "Cmd (config.Build c') = Cmd (config.Build m)" by simp
  from arg_cong [OF frame, of "\<lambda>c. Delay (config.Build c)"]
  have delay: "Delay (config.Build c') = Delay (config.Build m)" by simp
  have example: "l = file_only_cmd \<longrightarrow>
        Cmd (config.Build c') = ''make'' \<and> Delay (config.Build c') = 1000"
    using build(1,9) cmd delay
    by (simp add: precedes_def defaultConfig_fields file_only_cmd_def zeroConfig_def)
  show ?thesis
    apply (rule exI [of _ m], rule exI [of _ c'])
    apply (intro conjI)
    apply (rule m r top build rest frame example)+
    done
qed

theorem merge_precedence_witness:
  "loads example_host ''/proj'' ''/proj/air.toml'' file_only_cmd \<and>
   (\<exists>c'. fst (snd (snd (initConfig example_host ''/proj'' ''/proj/air.toml''))) = Some c' \<and>
         Cmd (config.Build c') = ''make'' \<and> Delay (config.Build c') = 1000)"
proof -
  have 1: "loads example_host ''/proj'' ''/proj/air.toml'' file_only_cmd"
    by (rule example_loads)
  have 2: "\<forall>c. adaptToVariousPlatforms example_host c = c"
    by (simp add: example_adapt)
  from merge_precedence [OF 1 2 surj_quad] 1 show ?thesis by blast
qed

text \<open>
  The specification states the precedence for every field of the finalized
  configuration. That fails for \<^verbatim>\<open>build.bin\<close>: the file holds \<^verbatim>\<open>bin = "app"\<close> and
  \<^verbatim>\<open>full_bin = "/custom/path"\<close>, the loaded \<^verbatim>\<open>bin\<close> is not the zero value, and the
  finalized \<^verbatim>\<open>bin\<close> is \<^verbatim>\<open>"/custom/path"\<close>.
\<close>

theorem merge_precedence_counterexample:
  "readConfig example_host ''/proj'' ''/proj/custom.toml'' = Inr file_custom_bin \<and>
   Bin (config.Build file_custom_bin) = ''app'' \<and>
   initConfig example_host ''/proj'' ''/proj/custom.toml'' =
     (''/proj'', [], Some finalized_custom_bin, None) \<and>
   Bin (config.Build finalized_custom_bin) = ''/custom/path''"
proof -
  have m: "mergo_Merge file_custom_bin (defaultConfig example_host) =
      Inr (finalized_custom_bin\<lparr> Root := ''.'',
             config.Build := (config.Build finalized_custom_bin)\<lparr> Bin := ''app'' \<rparr> \<rparr>)"
    by (simp add: merge_defs mergeField_simps file_custom_bin_def zeroConfig_def
        defaultConfig_def example_host_def finalized_custom_bin_def Let_def)
  have pp: "preprocess example_host ''/proj''
      (finalized_custom_bin\<lparr> Root := ''.'',
             config.Build := (config.Build finalized_custom_bin)\<lparr> Bin := ''app'' \<rparr> \<rparr>) =
      (''/proj'', finalized_custom_bin, None)"
    by (simp add: preprocess_def example_host_def finalized_custom_bin_def airWd_def Let_def)
  have "initConfig example_host ''/proj'' ''/proj/custom.toml'' =
     (''/proj'', [], Some finalized_custom_bin, None)"
    by (simp add: initConfig_def readConfigOrDefault_def example_readConfig m pp Let_def)
  then show ?thesis
    by (simp add: example_readConfig file_custom_bin_def zeroConfig_def finalized_custom_bin_def)
qed

subsection \<open>C2: an explicit path that fails to load\<close>

text \<open>
  C2, as the code has it. For every non-empty explicit path whose load fails with an
  error \<open>e\<close>, \<open>readConfigOrDefault\<close> returns the default configuration together with
  \<open>e\<close>, and \<open>initConfig\<close> returns \<open>e\<close> to its caller with no configuration (the
  \<^verbatim>\<open>nil\<close> pointer); the process state is unchanged and nothing is printed.
\<close>

theorem explicit_load_failure:
  assumes "path \<noteq> []" and "readConfig w p path = Inl e"
  shows "readConfigOrDefault w p path = (defaultConfig w, Some e) \<and>
         initConfig w p path = (p, [], None, Some e)"
  using assms by (simp add: initConfig_def readConfigOrDefault_def Let_def)

theorem explicit_load_failure_witness:
  "''/proj/missing.toml'' \<noteq> [] \<and>
   readConfig example_host ''/proj'' ''/proj/missing.toml'' =
     Inl (ErrReadConfig (OsError ''no such file'')) \<and>
   readConfigOrDefault example_host ''/proj'' ''/proj/missing.toml'' =
     (defaultConfig example_host, Some (ErrReadConfig (OsError ''no such file''))) \<and>
   initConfig example_host ''/proj'' ''/proj/missing.toml'' =
     (''/proj'', [], None, Some (ErrReadConfig (OsError ''no such file'')))"
proof -
  have 1: "''/proj/missing.toml'' \<noteq> []" by simp
  have 2: "readConfig example_host ''/proj'' ''/proj/missing.toml'' =
     Inl (ErrReadConfig (OsError ''no such file''))"
    by (simp add: example_readConfig)
  from explicit_load_failure [OF 1 2] 2 show ?thesis by simp
qed

text \<open>
  The specification has the caller of \<open>initConfig\<close> receive a usable configuration
  next to the error. On the example host the file
  \<^verbatim>\<open>/proj/missing.toml\<close> does not exist, and \<open>initConfig\<close> returns no configuration.
\<close>

theorem explicit_load_failure_counterexample:
  "readConfig example_host ''/proj'' ''/proj/missing.toml'' =
     Inl (ErrReadConfig (OsError ''no such file'')) \<and>
   initConfig example_host ''/proj'' ''/proj/missing.toml'' =
     (''/proj'', [], None, Some (ErrReadConfig (OsError ''no such file'')))"
  by (simp add: initConfig_def readConfigOrDefault_def example_readConfig Let_def)

subsection \<open>C3: the full-bin short circuit\<close>

text \<open>
  C3. For every configuration whose \<^verbatim>\<open>build.full_bin\<close> is a non-empty string, on a
  host whose platform adaptation leaves \<^verbatim>\<open>build.full_bin\<close> as it is, a run of
  \<open>preprocess\<close> that ends without error leaves \<^verbatim>\<open>build.bin\<close> equal to that
  \<^verbatim>\<open>full_bin\<close>, whatever \<^verbatim>\<open>build.bin\<close> was before; and the conversion to an absolute
  path is not applied: with any other function \<open>f\<close> in the place of \<^verbatim>\<open>filepath.Abs\<close>
  the run gives the same result.
\<close>

theorem fullBin_short_circuit:
  assumes "FullBin (config.Build c) \<noteq> []"
    and "\<forall>c. FullBin (config.Build (adaptToVariousPlatforms w c)) = FullBin (config.Build c)"
    and "preprocess w p c = (p', c', None)"
  shows "Bin (config.Build c') = FullBin (config.Build c) \<and>
         preprocess (w\<lparr> Abs := f \<rparr>) p c = (p', c', None)"
proof -
  from assms(3) have "Bin (config.Build c') = FullBin (config.Build c)"
  proof (cases rule: preprocess_elim)
    case (FullBinSet c1 root ed a)
    then show ?thesis using assms(2) by simp
  next
    case (AbsBin c1 root ed a bin)
    then show ?thesis using assms(1,2) by simp
  qed simp_all
  with preprocess_Abs_unused [OF assms(1,2)] assms(3) show ?thesis by simp
qed

theorem fullBin_short_circuit_witness:
  "FullBin (config.Build cfg_full_bin) \<noteq> [] \<and>
   preprocess example_host ''/proj'' cfg_full_bin =
     (''/proj'', cfg_full_bin\<lparr> Root := ''/proj'',
         config.Build := (config.Build cfg_full_bin)\<lparr> Bin := ''/custom/path'' \<rparr> \<rparr>, None) \<and>
   Bin (config.Build (cfg_full_bin\<lparr> Root := ''/proj'',
         config.Build := (config.Build cfg_full_bin)\<lparr> Bin := ''/custom/path'' \<rparr> \<rparr>)) =
     FullBin (config.Build cfg_full_bin) \<and>
   preprocess (example_host\<lparr> Abs := failingAbs \<rparr>) ''/proj'' cfg_full_bin =
     (''/proj'', cfg_full_bin\<lparr> Root := ''/proj'',
         config.Build := (config.Build cfg_full_bin)\<lparr> Bin := ''/custom/path'' \<rparr> \<rparr>, None)"
proof -
  have 1: "FullBin (config.Build cfg_full_bin) \<noteq> []"
    by (simp add: cfg_full_bin_def)
  have 2: "\<forall>c. FullBin (config.Build (adaptToVariousPlatforms example_host c)) =
               FullBin (config.Build c)"
    by (simp add: example_host_def)
  have 3: "preprocess example_host ''/proj'' cfg_full_bin =
     (''/proj'', cfg_full_bin\<lparr> Root := ''/proj'',
         config.Build := (config.Build cfg_full_bin)\<lparr> Bin := ''/custom/path'' \<rparr> \<rparr>, None)"
    by (simp add: preprocess_def example_host_def cfg_full_bin_def defaultConfig_def airWd_def
        Let_def)
  from fullBin_short_circuit [OF 1 2 3, of failingAbs] 1 3 show ?thesis by simp
qed

subsection \<open>C4: discovery priority\<close>

text \<open>
  C4. With no explicit path, discovery probes exactly the three names
  \<^verbatim>\<open>.air.yaml\<close>, \<^verbatim>\<open>.air.toml\<close> and \<^verbatim>\<open>.air.conf\<close>, in this order, and returns the
  configuration of the first one that reads without error (printing the deprecation
  notice when that is \<^verbatim>\<open>.air.conf\<close>); when both the YAML-named and the TOML-named
  file parse, the YAML one is selected.
\<close>

theorem discovery_priority:
  "defaultPathConfig w p =
     (case readConfByName w p ''.air.yaml'' of
        Inr c \<Rightarrow> ([], c, None)
      | Inl e1 \<Rightarrow>
          (case readConfByName w p ''.air.toml'' of
             Inr c \<Rightarrow> ([], c, None)
           | Inl e2 \<Rightarrow>
               (case readConfByName w p ''.air.conf'' of
                  Inr c \<Rightarrow>
                    ([''`.air.conf` will be deprecated soon, recommend using `.air.toml`.''],
                     c, None)
                | Inl e3 \<Rightarrow> ([], defaultConfig w, None)))) \<and>
   (\<forall>cy ct. readConfByName w p ''.air.yaml'' = Inr cy \<and>
            readConfByName w p ''.air.toml'' = Inr ct \<longrightarrow>
            defaultPathConfig w p = ([], cy, None))"
  by (simp add: defaultPathConfig_cases)

theorem discovery_priority_witness:
  "readConfByName example_host ''/both'' ''.air.yaml'' = Inr file_yaml \<and>
   readConfByName example_host ''/both'' ''.air.toml'' = Inr file_toml \<and>
   defaultPathConfig example_host ''/both'' = ([], file_yaml, None)"
  using discovery_priority [of example_host "''/both''"]
  by (simp add: example_readConfByName)

subsection \<open>C5: graceful fallback\<close>

text \<open>
  C5. When the explicit path is empty and none of the three conventional names reads
  and parses, discovery (\<open>defaultPathConfig\<close>) returns the default provider's
  configuration, unchanged, and no error. The three errors of the failed reads do not
  reach the caller of \<open>initConfig\<close> either: it returns what \<open>preprocess\<close> makes of the
  default configuration, and no error but the one of \<open>preprocess\<close>.
\<close>

theorem graceful_fallback:
  assumes "readConfByName w p dftYAML = Inl e1"
    and "readConfByName w p dftTOML = Inl e2"
    and "readConfByName w p dftConf = Inl e3"
  shows "defaultPathConfig w p = ([], defaultConfig w, None) \<and>
         initConfig w p [] =
           (case preprocess w p (defaultConfig w) of
              (p', c', err) \<Rightarrow> (p', [], Some c', err))"
proof -
  from assms have d: "defaultPathConfig w p = ([], defaultConfig w, None)"
    by (simp add: defaultPathConfig_cases dftYAML_def dftTOML_def dftConf_def)
  then show ?thesis
    by (simp add: initConfig_def mergo_Merge_same)
qed

theorem graceful_fallback_witness:
  "readConfByName example_host ''/none'' dftYAML = Inl (ErrReadConfig (OsError ''no such file'')) \<and>
   readConfByName example_host ''/none'' dftTOML = Inl (ErrReadConfig (OsError ''no such file'')) \<and>
   readConfByName example_host ''/none'' dftConf = Inl (ErrReadConfig (OsError ''no such file'')) \<and>
   defaultPathConfig example_host ''/none'' = ([], defaultConfig example_host, None)"
proof -
  have 1: "readConfByName example_host ''/none'' dftYAML = Inl (ErrReadConfig (OsError ''no such file''))"
    by (simp add: dftYAML_def example_readConfByName)
  have 2: "readConfByName example_host ''/none'' dftTOML = Inl (ErrReadConfig (OsError ''no such file''))"
    by (simp add: dftTOML_def example_readConfByName)
  have 3: "readConfByName example_host ''/none'' dftConf = Inl (ErrReadConfig (OsError ''no such file''))"
    by (simp add: dftConf_def example_readConfByName)
  from graceful_fallback [OF 1 2 3] 1 2 3 show ?thesis by simp
qed

subsection \<open>C6: the working-directory override\<close>

text \<open>
  C6. For every configuration given to \<open>preprocess\<close>, if the environment variable
  \<^verbatim>\<open>air_wd\<close> holds a non-empty value \<open>d\<close> and the change of directory to \<open>d\<close>
  succeeds, then \<^verbatim>\<open>root\<close> is set to \<open>d\<close> before the expansion of the root: whatever
  root the configuration held, the finalized root is the expansion of \<open>d\<close>, computed
  in the process state after the change of directory (on a host whose platform
  adaptation leaves \<^verbatim>\<open>root\<close> as it is).
\<close>

theorem working_directory_override:
  assumes "Getenv w airWd = d" and "d \<noteq> []"
    and "Chdir w d p = Inr p1"
    and "\<forall>c. Root (adaptToVariousPlatforms w c) = Root c"
    and "preprocess w p c = (p', c', err)"
  shows "p' = p1 \<and> Root c' = fst (expandPath w p1 d)"
  using assms(5)
proof (cases rule: preprocess_elim)
  case (ChdirFail e)
  with assms show ?thesis by simp
next
  case (ExpandFail c1 root e)
  with assms show ?thesis by simp
next
  case (FullBinSet c1 root ed a)
  with assms show ?thesis by simp
next
  case (AbsBin c1 root ed a bin)
  with assms show ?thesis by simp
qed

theorem working_directory_override_witness:
  "Getenv (example_host_wd ''/srv/app'') airWd = ''/srv/app'' \<and> ''/srv/app'' \<noteq> [] \<and>
   Chdir (example_host_wd ''/srv/app'') ''/srv/app'' ''/proj'' = Inr ''/srv/app'' \<and>
   Root cfg_proj = ''/proj'' \<and>
   fst (preprocess (example_host_wd ''/srv/app'') ''/proj'' cfg_proj) = ''/srv/app'' \<and>
   Root (fst (snd (preprocess (example_host_wd ''/srv/app'') ''/proj'' cfg_proj))) = ''/srv/app''"
proof -
  let ?w = "example_host_wd ''/srv/app''"
  have 1: "Getenv ?w airWd = ''/srv/app''" by (simp add: example_host_wd_def)
  have 2: "''/srv/app'' \<noteq> []" by simp
  have 3: "Chdir ?w ''/srv/app'' ''/proj'' = Inr ''/srv/app''"
    by (simp add: example_host_wd_def example_host_def)
  have 4: "\<forall>c. Root (adaptToVariousPlatforms ?w c) = Root c"
    by (simp add: example_host_wd_def example_host_def)
  have 5: "fst (expandPath ?w ''/srv/app'' ''/srv/app'') = ''/srv/app''"
    by (simp add: example_host_wd_def example_host_def)
  have 6: "Root cfg_proj = ''/proj''" by (simp add: cfg_proj_def)
  from working_directory_override [OF 1 2 3 4 surj_triple] 1 3 5 6 show ?thesis by simp
qed

subsection \<open>C7: the temp directory is never empty\<close>

text \<open>
  C7. Whatever \<^verbatim>\<open>tmp_dir\<close> the input configuration holds, the empty string included,
  the finalized \<^verbatim>\<open>tmp_dir\<close> is never the empty string: it is \<^verbatim>\<open>"tmp"\<close> when the input
  one is empty and the input one otherwise. This holds for every run of \<open>preprocess\<close>
  that ends without error, and for every configuration \<open>l\<close> that \<open>initConfig\<close> loads
  and the configuration it returns (on a host whose platform adaptation leaves
  \<^verbatim>\<open>tmp_dir\<close> as it is).
\<close>

theorem tmpDir_never_empty:
  assumes "\<forall>c. TmpDir (adaptToVariousPlatforms w c) = TmpDir c"
  shows "(preprocess w p c = (p1, c1, None) \<longrightarrow>
            TmpDir c1 \<noteq> [] \<and> TmpDir c1 = (if TmpDir c = [] then ''tmp'' else TmpDir c)) \<and>
         (loads w p path l \<and> initConfig w p path = (p', out, r, err) \<longrightarrow>
            (\<exists>c'. r = Some c' \<and> TmpDir c' \<noteq> [] \<and>
                  TmpDir c' = (if TmpDir l = [] then ''tmp'' else TmpDir l)))"
proof -
  have pre: "TmpDir c1 = (if TmpDir c = [] then ''tmp'' else TmpDir c)"
    if "preprocess w p c = (p1, c1, e)" and "e = None \<or> TmpDir c \<noteq> []" for c p1 c1 e
    using that(1)
  proof (cases rule: preprocess_elim)
    case (ChdirFail e')
    with that(2) show ?thesis by auto
  next
    case (ExpandFail c0 root e')
    then show ?thesis by simp
  next
    case (FullBinSet c0 root ed a)
    with assms show ?thesis by simp
  next
    case (AbsBin c0 root ed a bin)
    with assms show ?thesis by simp
  qed
  have one: "preprocess w p c = (p1, c1, None) \<longrightarrow>
            TmpDir c1 \<noteq> [] \<and> TmpDir c1 = (if TmpDir c = [] then ''tmp'' else TmpDir c)"
    using pre [of c p1 c1 None] by auto
  have two: "\<exists>c'. r = Some c' \<and> TmpDir c' \<noteq> [] \<and>
                  TmpDir c' = (if TmpDir l = [] then ''tmp'' else TmpDir l)"
    if ld: "loads w p path l" and run: "initConfig w p path = (p', out, r, err)"
  proof -
    from ld run obtain m c' where m: "mergo_Merge l (defaultConfig w) = Inr m"
      and r: "r = Some c'" and pp: "preprocess w p m = (p', c', err)"
      by (rule initConfig_merged)
    from mergo_Merge_top(2) [OF m]
    have tm: "TmpDir m = (if TmpDir l = [] then ''tmp'' else TmpDir l)"
      by (simp add: precedes_def defaultConfig_fields)
    then have ne: "TmpDir m \<noteq> []" by simp
    with pre [OF pp] have "TmpDir c' = TmpDir m" by simp
    with tm ne r show ?thesis by simp
  qed
  from one two show ?thesis by blast
qed

theorem tmpDir_never_empty_witness:
  "snd (snd (preprocess example_host ''/proj'' file_only_cmd)) = None \<and>
   TmpDir file_only_cmd = [] \<and>
   TmpDir (fst (snd (preprocess example_host ''/proj'' file_only_cmd))) = ''tmp'' \<and>
   loads example_host ''/proj'' ''/proj/air.toml'' file_only_cmd \<and>
   (\<exists>c'. fst (snd (snd (initConfig example_host ''/proj'' ''/proj/air.toml''))) = Some c' \<and>
         TmpDir c' = ''tmp'')"
proof -
  have 1: "loads example_host ''/proj'' ''/proj/air.toml'' file_only_cmd"
    by (rule example_loads)
  have 2: "\<forall>c. TmpDir (adaptToVariousPlatforms example_host c) = TmpDir c"
    by (simp add: example_adapt)
  have 3: "TmpDir file_only_cmd = []"
    by (simp add: file_only_cmd_def zeroConfig_def)
  have 4: "snd (snd (preprocess example_host ''/proj'' file_only_cmd)) = None"
    by (simp add: preprocess_def example_host_def file_only_cmd_def zeroConfig_def airWd_def
        Let_def)
  have 5: "preprocess example_host ''/proj'' file_only_cmd =
     (fst (preprocess example_host ''/proj'' file_only_cmd),
      fst (snd (preprocess example_host ''/proj'' file_only_cmd)), None)"
    using 4 surj_triple [of "preprocess example_host ''/proj'' file_only_cmd"] by simp
  from tmpDir_never_empty [OF 2, of "''/proj''" file_only_cmd _ _ "''/proj/air.toml''"
      file_only_cmd "fst (initConfig example_host ''/proj'' ''/proj/air.toml'')"
      "fst (snd (initConfig example_host ''/proj'' ''/proj/air.toml''))"
      "fst (snd (snd (initConfig example_host ''/proj'' ''/proj/air.toml'')))"
      "snd (snd (snd (initConfig example_host ''/proj'' ''/proj/air.toml'')))"] 1 3 4 5
  show ?thesis by auto
qed

subsection \<open>C8: a false stop-on-error is indistinguishable from an unset one\<close>

text \<open>
  C8. For every configuration that \<open>initConfig\<close> loads with \<^verbatim>\<open>build.stop_on_error\<close>
  false, whether the file left the field out or set it to false, the finalized
  \<^verbatim>\<open>build.stop_on_error\<close> is true, the default (on a host whose platform adaptation
  leaves the field as it is).
\<close>

theorem stopOnError_false_is_unset:
  assumes "loads w p path l"
    and "\<not> StopOnError (config.Build l)"
    and "\<forall>c. StopOnError (config.Build (adaptToVariousPlatforms w c)) =
              StopOnError (config.Build c)"
    and "initConfig w p path = (p', out, r, err)"
  shows "\<exists>c'. r = Some c' \<and> StopOnError (config.Build c') = True"
proof -
  from assms(1,4) obtain m c' where m: "mergo_Merge l (defaultConfig w) = Inr m"
    and r: "r = Some c'" and pp: "preprocess w p m = (p', c', err)"
    by (rule initConfig_merged)
  from mergo_Merge_build(10) [OF m] assms(2)
  have sm: "StopOnError (config.Build m)"
    by (simp add: precedes_def defaultConfig_fields)
  from pp have "StopOnError (config.Build c') = StopOnError (config.Build m)"
  proof (cases rule: preprocess_elim)
    case (ChdirFail e)
    then show ?thesis by simp
  next
    case (ExpandFail c1 root e)
    then show ?thesis by simp
  next
    case (FullBinSet c1 root ed a)
    with assms(3) show ?thesis by simp
  next
    case (AbsBin c1 root ed a bin)
    with assms(3) show ?thesis by simp
  qed
  with sm r show ?thesis by simp
qed

theorem stopOnError_false_is_unset_witness:
  "loads example_host ''/proj'' ''/proj/air.toml'' file_only_cmd \<and>
   \<not> StopOnError (config.Build file_only_cmd) \<and>
   (\<exists>c'. fst (snd (snd (initConfig example_host ''/proj'' ''/proj/air.toml''))) = Some c' \<and>
         StopOnError (config.Build c') = True)"
proof -
  have 1: "loads example_host ''/proj'' ''/proj/air.toml'' file_only_cmd"
    by (rule example_loads)
  have 2: "\<not> StopOnError (config.Build file_only_cmd)"
    by (simp add: file_only_cmd_def zeroConfig_def)
  have 3: "\<forall>c. StopOnError (config.Build (adaptToVariousPlatforms example_host c)) =
              StopOnError (config.Build c)"
    by (simp add: example_adapt)
  from stopOnError_false_is_unset [OF 1 2 3 surj_quad] 1 2 show ?thesis by auto
qed

subsection \<open>C9: the relative-path accessor\<close>

text \<open>
  C9. For every configuration and every path, \<open>rel\<close> returns the path made relative
  to the root when \<^verbatim>\<open>filepath.Rel\<close> succeeds, and the empty string when it fails; it
  returns a string in both cases and no error.
\<close>

theorem rel_best_effort:
  "(\<forall>s. Rel w (Root c) path = (s, None) \<longrightarrow> rel w c path = s) \<and>
   (\<forall>s e. Rel w (Root c) path = (s, Some e) \<longrightarrow> rel w c path = [])"
  by (simp add: rel_def)

theorem rel_best_effort_witness:
  "Rel example_host (Root cfg_proj) ''/proj/main.go'' = (''main.go'', None) \<and>
   rel example_host cfg_proj ''/proj/main.go'' = ''main.go'' \<and>
   Rel example_host (Root cfg_proj) ''/etc/hosts'' =
     ([], Some (OsError ''Rel: cannot make relative'')) \<and>
   rel example_host cfg_proj ''/etc/hosts'' = []"
proof -
  have 1: "Rel example_host (Root cfg_proj) ''/proj/main.go'' = (''main.go'', None)"
    by (simp add: example_host_def cfg_proj_def)
  have 2: "Rel example_host (Root cfg_proj) ''/etc/hosts'' =
     ([], Some (OsError ''Rel: cannot make relative''))"
    by (simp add: example_host_def cfg_proj_def)
  from rel_best_effort [of example_host cfg_proj "''/proj/main.go''"]
    rel_best_effort [of example_host cfg_proj "''/etc/hosts''"] 1 2
  show ?thesis by simp
qed

subsection \<open>C10: the color table\<close>

text \<open>
  C10. For every configuration, \<open>colorInfo\<close> returns a table with exactly the four
  keys \<^verbatim>\<open>main\<close>, \<^verbatim>\<open>build\<close>, \<^verbatim>\<open>runner\<close> and \<^verbatim>\<open>watcher\<close>, each mapped to the color
  configured for it; the key \<^verbatim>\<open>app\<close> of the fifth field is not in the table.
\<close>

theorem colorInfo_four_keys:
  "dom (colorInfo c) = {''main'', ''build'', ''runner'', ''watcher''} \<and>
   colorInfo c ''main'' = Some (Main (Color c)) \<and>
   colorInfo c ''build'' = Some (cfgColor.Build (Color c)) \<and>
   colorInfo c ''runner'' = Some (Runner (Color c)) \<and>
   colorInfo c ''watcher'' = Some (Watcher (Color c)) \<and>
   colorInfo c ''app'' = None"
proof -
  have "dom (colorInfo c) = {''main'', ''build'', ''runner'', ''watcher''}"
    by (auto simp: colorInfo_def)
  then show ?thesis by (simp add: colorInfo_def)
qed

end
